theory Spec2Isabelle
  imports Complex_Main "HOL-Library.AList"
begin

section \<open>JavaScript values\<close>

text \<open>
  The values that travel through \<^verbatim>\<open>lib/resources/collection.js\<close>: request bodies,
  queries, store results and the errors handed to callbacks. A number is an IEEE double:
  a finite one is represented by the rational it denotes, the two zeros being one value
  (no operation of the code tells them apart). A string is its list of code units, those
  below 256. An object is its list of own properties in insertion order, over
  \<^verbatim>\<open>Object.prototype\<close>; an array is its list of slots, a deleted slot being a hole
  (\<open>None\<close>). Arrays carry no named properties besides their indices.
\<close>

datatype jsnum = NaN | PosInfinity | NegInfinity | Finite rat

datatype jsval =
    JUndefined
  | JNull
  | JBool bool
  | JNum jsnum
  | JStr string
  | JObj "(string \<times> jsval) list"
  | JArr "jsval option list"

type_synonym object = "(string \<times> jsval) list"

text \<open>\<^verbatim>\<open>typeof val\<close>.\<close>

fun typeof :: "jsval \<Rightarrow> string" where
  "typeof JUndefined = ''undefined''"
| "typeof JNull = ''object''"
| "typeof (JBool b) = ''boolean''"
| "typeof (JNum n) = ''number''"
| "typeof (JStr s) = ''string''"
| "typeof (JObj ps) = ''object''"
| "typeof (JArr xs) = ''object''"

text \<open>The truthiness test behind \<^verbatim>\<open>if(v)\<close>, \<^verbatim>\<open>!v\<close>, \<^verbatim>\<open>a || b\<close> and \<^verbatim>\<open>a && b\<close>.\<close>

fun truthy :: "jsval \<Rightarrow> bool" where
  "truthy JUndefined = False"
| "truthy JNull = False"
| "truthy (JBool b) = b"
| "truthy (JNum NaN) = False"
| "truthy (JNum (Finite x)) = (x \<noteq> 0)"
| "truthy (JNum n) = True"
| "truthy (JStr s) = (s \<noteq> [])"
| "truthy (JObj ps) = True"
| "truthy (JArr xs) = True"

text \<open>
  \<^verbatim>\<open>body[key]\<close> on an object: the value of its own property \<open>key\<close>, and
  \<^verbatim>\<open>undefined\<close> when it has none. The names that \<^verbatim>\<open>Object.prototype\<close> defines
  (\<^verbatim>\<open>constructor\<close>, \<^verbatim>\<open>toString\<close>, \<^verbatim>\<open>__proto__\<close> and the like), under which a
  read finds an inherited member, are not field names of the model.
\<close>

definition get_prop :: "object \<Rightarrow> string \<Rightarrow> jsval" where
  "get_prop obj key = (case map_of obj key of None \<Rightarrow> JUndefined | Some v \<Rightarrow> v)"

text \<open>\<^verbatim>\<open>Object.keys(obj)\<close>.\<close>

definition Object_keys :: "(string \<times> 'a) list \<Rightarrow> string list" where
  "Object_keys obj = map fst obj"

section \<open>Schema engine: \<^verbatim>\<open>Collection.prototype.sanitize\<close> and \<^verbatim>\<open>validate\<close>\<close>

text \<open>
  One entry of \<^verbatim>\<open>this.properties\<close>: \<^verbatim>\<open>{type: ..., required: ...}\<close>. A property
  declared without a \<^verbatim>\<open>type\<close> field has \<open>ptype = None\<close> (reading it gives
  \<^verbatim>\<open>undefined\<close>).
\<close>

record property =
  ptype :: "string option"
  required :: bool

type_synonym properties = "(string \<times> property) list"

text \<open>
  The body of the \<^verbatim>\<open>keys.forEach\<close> callback of \<^verbatim>\<open>sanitize\<close> (lines 89 to 103).
  \<^verbatim>\<open>parseInt\<close> is the JavaScript built-in; the model takes it as a parameter, on
  strings, since the value it is given has \<^verbatim>\<open>typeof\<close> \<^verbatim>\<open>'string'\<close>. Every
  \<open>key\<close> comes from \<^verbatim>\<open>Object.keys(props)\<close>, so \<^verbatim>\<open>props[key]\<close> is an entry; an
  entry is an object, hence the guard \<^verbatim>\<open>if(!prop) return\<close> never fires on it.
  \<^verbatim>\<open>expected == actual\<close> compares the declared type with a \<^verbatim>\<open>typeof\<close> string: a
  missing type (\<^verbatim>\<open>undefined\<close>) equals none of them.
\<close>

fun chars :: "jsval \<Rightarrow> string" where
  "chars (JStr s) = s"
| "chars v = []"

definition sanitize_key ::
  "(string \<Rightarrow> jsnum) \<Rightarrow> properties \<Rightarrow> object \<Rightarrow> string \<Rightarrow> object \<Rightarrow> object" where
  "sanitize_key parseInt props body key sanitized =
     (case map_of props key of
        None \<Rightarrow> sanitized
      | Some prop \<Rightarrow>
          (let expected = ptype prop;
               val = get_prop body key;
               actual = typeof val
           in if expected = Some actual then AList.update key val sanitized
              else if expected = Some ''number'' \<and> actual = ''string''
                then AList.update key (JNum (parseInt (chars val))) sanitized
              else sanitized))"

definition sanitize :: "(string \<Rightarrow> jsnum) \<Rightarrow> properties \<Rightarrow> object \<Rightarrow> object" where
  "sanitize parseInt props body =
     fold (sanitize_key parseInt props body) (Object_keys props) []"

text \<open>
  JavaScript's \<^verbatim>\<open>parseInt(string)\<close>, called without a radix (ECMAScript 5.1,
  15.1.2.2): leading white space is skipped, then an optional sign, then \<^verbatim>\<open>0x\<close> or
  \<^verbatim>\<open>0X\<close>, which makes the radix 16 in place of 10; the digits that follow, up to the
  first character that is no digit of the radix, are the numeral. Without a digit the
  result is NaN; otherwise it is the double nearest to the integer the numeral denotes
  (ties to even, Infinity beyond the largest double), with the sign.
\<close>

definition is_white_space :: "char \<Rightarrow> bool" where
  "is_white_space c = ((of_char c :: nat) \<in> {9, 10, 11, 12, 13, 32, 160})"

definition digit_of :: "nat \<Rightarrow> char \<Rightarrow> nat option" where
  "digit_of R c =
     (let n = (of_char c :: nat);
          d = (if 48 \<le> n \<and> n \<le> 57 then Some (n - 48)
               else if 97 \<le> n \<and> n \<le> 122 then Some (n - 87)
               else if 65 \<le> n \<and> n \<le> 90 then Some (n - 55)
               else None)
      in case d of None \<Rightarrow> None | Some v \<Rightarrow> if v < R then Some v else None)"

fun digits_of :: "nat \<Rightarrow> string \<Rightarrow> nat list" where
  "digits_of R [] = []"
| "digits_of R (c # cs) = (case digit_of R c of None \<Rightarrow> [] | Some d \<Rightarrow> d # digits_of R cs)"

text \<open>The sign (\<open>True\<close> for minus), the radix and the digits of the numeral.\<close>

definition numeral_of :: "string \<Rightarrow> bool \<times> nat \<times> nat list" where
  "numeral_of s =
     (let s1 = dropWhile is_white_space s;
          (neg, s2) = (case s1 of
                           [] \<Rightarrow> (False, s1)
                         | c # cs \<Rightarrow> if c = CHR ''-'' then (True, cs)
                                    else if c = CHR ''+'' then (False, cs)
                                    else (False, s1))
      in case s2 of
           a # b # rest \<Rightarrow>
             if a = CHR ''0'' \<and> (b = CHR ''x'' \<or> b = CHR ''X'') then (neg, 16, digits_of 16 rest)
             else (neg, 10, digits_of 10 s2)
         | _ \<Rightarrow> (neg, 10, digits_of 10 s2))"

fun bit_length :: "nat \<Rightarrow> nat" where
  "bit_length n = (if n = 0 then 0 else Suc (bit_length (n div 2)))"

declare bit_length.simps [simp del]

text \<open>The double nearest to a natural number: 53 significant bits, ties to even.\<close>

definition to_double :: "nat \<Rightarrow> jsnum" where
  "to_double n =
     (if n < 2 ^ 53 then Finite (of_nat n)
      else
        (let e = bit_length n - 53;
             q = n div 2 ^ e;
             r = n mod 2 ^ e;
             q' = (if 2 ^ e < 2 * r \<or> (2 * r = 2 ^ e \<and> odd q) then q + 1 else q)
         in if 2 ^ 1024 \<le> q' * 2 ^ e then PosInfinity else Finite (of_nat (q' * 2 ^ e))))"

fun negated :: "jsnum \<Rightarrow> jsnum" where
  "negated NaN = NaN"
| "negated PosInfinity = NegInfinity"
| "negated NegInfinity = PosInfinity"
| "negated (Finite x) = Finite (- x)"

definition parseInt :: "string \<Rightarrow> jsnum" where
  "parseInt s =
     (case numeral_of s of
        (neg, R, Z) \<Rightarrow>
          if Z = [] then NaN
          else (let n = to_double (fold (\<lambda>d m. R * m + d) Z 0)
                in if neg then negated n else n))"

text \<open>Decimal digits, for the indices of arrays.\<close>

definition is_digit :: "char \<Rightarrow> bool" where
  "is_digit c = (48 \<le> (of_char c :: nat) \<and> (of_char c :: nat) \<le> 57)"

definition dec_value :: "string \<Rightarrow> nat" where
  "dec_value s = fold (\<lambda>c n. 10 * n + ((of_char c :: nat) - 48)) s 0"

text \<open>
  The body of the \<^verbatim>\<open>keys.forEach\<close> callback of \<^verbatim>\<open>validate\<close> (lines 57 to 69).
  \<^verbatim>\<open>validation.exists\<close> and \<^verbatim>\<open>validation.isType\<close> belong to the external module
  \<^verbatim>\<open>validation\<close>; they are parameters. \<^verbatim>\<open>prop.type || 'string'\<close> takes
  \<^verbatim>\<open>'string'\<close> when the type is missing or the empty string.
\<close>

definition validate_key ::
  "(jsval \<Rightarrow> bool) \<Rightarrow> (jsval \<Rightarrow> string \<Rightarrow> bool) \<Rightarrow> properties \<Rightarrow> object \<Rightarrow> string \<Rightarrow> object \<Rightarrow> object" where
  "validate_key exists isType props body key errors =
     (case map_of props key of
        None \<Rightarrow> errors
      | Some prop \<Rightarrow>
          (let val = get_prop body key;
               type = (case ptype prop of
                         None \<Rightarrow> ''string''
                       | Some t \<Rightarrow> if t \<noteq> [] then t else ''string'')
           in if exists val
                then (if \<not> isType val type
                        then AList.update key (JStr (''must be a '' @ type)) errors
                      else errors)
              else if required prop then AList.update key (JStr ''is required'') errors
              else errors))"

text \<open>
  \<^verbatim>\<open>validate\<close>: \<^verbatim>\<open>this.properties\<close> may be unset (\<open>None\<close>) and is then replaced by
  \<^verbatim>\<open>{}\<close>; the function returns the errors when there are any and \<^verbatim>\<open>undefined\<close>
  (\<open>None\<close>) otherwise.
\<close>

definition validate ::
  "(jsval \<Rightarrow> bool) \<Rightarrow> (jsval \<Rightarrow> string \<Rightarrow> bool) \<Rightarrow> properties option \<Rightarrow> object \<Rightarrow> object option" where
  "validate exists isType properties body =
     (let props = (case properties of None \<Rightarrow> [] | Some ps \<Rightarrow> ps);
          errors = fold (validate_key exists isType props body) (Object_keys props) []
      in if length (Object_keys errors) \<noteq> 0 then Some errors else None)"

text \<open>
  What the visit of key \<open>k\<close> assigns in \<^verbatim>\<open>sanitize\<close>, if anything: used to state
  what the loop computes.
\<close>

definition sanitized_value :: "(string \<Rightarrow> jsnum) \<Rightarrow> properties \<Rightarrow> object \<Rightarrow> string \<Rightarrow> jsval option" where
  "sanitized_value pI props body k =
     (case map_of props k of
        None \<Rightarrow> None
      | Some prop \<Rightarrow>
          if ptype prop = Some (typeof (get_prop body k)) then Some (get_prop body k)
          else if ptype prop = Some ''number'' \<and> typeof (get_prop body k) = ''string''
            then Some (JNum (pI (chars (get_prop body k))))
          else None)"

text \<open>What the visit of key \<open>k\<close> assigns in \<^verbatim>\<open>validate\<close>, if anything.\<close>

definition validated_error ::
  "(jsval \<Rightarrow> bool) \<Rightarrow> (jsval \<Rightarrow> string \<Rightarrow> bool) \<Rightarrow> properties \<Rightarrow> object \<Rightarrow> string \<Rightarrow> jsval option" where
  "validated_error exists isType props body k =
     (case map_of props k of
        None \<Rightarrow> None
      | Some prop \<Rightarrow>
          (let type = (case ptype prop of
                         None \<Rightarrow> ''string''
                       | Some t \<Rightarrow> if t \<noteq> [] then t else ''string'')
           in if exists (get_prop body k)
                then (if isType (get_prop body k) type then None
                      else Some (JStr (''must be a '' @ type)))
              else if required prop then Some (JStr ''is required'') else None))"

section \<open>Hook execution: \<^verbatim>\<open>Collection.prototype.execListener\<close>\<close>

text \<open>
  A listener is JavaScript text run by the external module \<^verbatim>\<open>async-eval\<close> with
  \<^verbatim>\<open>this\<close> bound to \<^verbatim>\<open>options.this\<close> and the functions of \<^verbatim>\<open>options.context\<close>
  in scope; a value the script throws reaches the callback as \<^verbatim>\<open>err\<close>. What the model
  keeps of a script is the sequence of capability calls it makes, as a function of the
  value bound to \<^verbatim>\<open>this\<close> when it starts; \<open>Throw\<close> stands for any other
  \<^verbatim>\<open>throw\<close> of the script. The message given to \<^verbatim>\<open>cancel\<close> is a string, or is
  missing (\<open>None\<close>). A script's own reads and writes of \<^verbatim>\<open>this\<close> and the
  \<^verbatim>\<open>asyncFunctions\<close> built by \<^verbatim>\<open>clean\<close> are outside the model. A listener that is
  not configured makes no call.
\<close>

datatype call =
    CallError string jsval
  | CallCancel "string option" jsval
  | CallHide string
  | CallProtect string
  | Throw jsval

type_synonym listener = "jsval \<Rightarrow> call list"

datatype listener_method = Get | Post | Put | Delete

record settings =
  onGet :: "listener option"
  onPost :: "listener option"
  onPut :: "listener option"
  onDelete :: "listener option"

text \<open>\<^verbatim>\<open>this.settings['on' + method]\<close>.\<close>

fun settings_on :: "settings \<Rightarrow> listener_method \<Rightarrow> listener option" where
  "settings_on s Get = onGet s"
| "settings_on s Post = onPost s"
| "settings_on s Put = onPut s"
| "settings_on s Delete = onDelete s"

definition script :: "listener option \<Rightarrow> jsval \<Rightarrow> call list" where
  "script src this = (case src of None \<Rightarrow> [] | Some l \<Rightarrow> l this)"

text \<open>\<^verbatim>\<open>session.isRoot\<close>, read for its truthiness only.\<close>

record session =
  isRoot :: bool

text \<open>
  \<^verbatim>\<open>new Error(msg)\<close> with \<^verbatim>\<open>err.status = status\<close> (lines 209 and 210): the error
  has the message as its own property when one is given and \<^verbatim>\<open>status\<close> always. And
  the TypeError the engine raises on \<^verbatim>\<open>delete null[p]\<close> or on calling a missing
  \<^verbatim>\<open>forEach\<close>. Both are objects, hence truthy.
\<close>

definition new_Error :: "string option \<Rightarrow> jsval \<Rightarrow> jsval" where
  "new_Error msg status =
     JObj ((case msg of None \<Rightarrow> [] | Some m \<Rightarrow> [(''message'', JStr m)]) @ [(''status'', status)])"

definition TypeError :: jsval where
  "TypeError = JObj [(''name'', JStr ''TypeError'')]"

text \<open>
  An array index is the canonical decimal string of a number below \<open>2^32 - 1\<close>.
\<close>

definition array_index :: "string \<Rightarrow> nat option" where
  "array_index s =
     (if s \<noteq> [] \<and> list_all is_digit s \<and> (s = ''0'' \<or> hd s \<noteq> CHR ''0'')
         \<and> dec_value s < 2 ^ 32 - 1
      then Some (dec_value s) else None)"

text \<open>
  \<^verbatim>\<open>delete target[property]\<close>: a TypeError (\<open>Inl\<close>) on \<^verbatim>\<open>null\<close> and
  \<^verbatim>\<open>undefined\<close>; on an object the property goes; on an array an index leaves a hole
  and any other name is not there to delete; on a primitive nothing changes.
\<close>

fun delete_prop :: "jsval \<Rightarrow> string \<Rightarrow> jsval + jsval" where
  "delete_prop JUndefined property = Inl TypeError"
| "delete_prop JNull property = Inl TypeError"
| "delete_prop (JObj ps) property = Inr (JObj (AList.delete property ps))"
| "delete_prop (JArr slots) property =
     (case array_index property of
        None \<Rightarrow> Inr (JArr slots)
      | Some i \<Rightarrow> if i < length slots then Inr (JArr (slots[i := None])) else Inr (JArr slots))"
| "delete_prop v property = Inr v"

text \<open>
  The variables the context functions close over: \<^verbatim>\<open>errors\<close> (unset at first) and
  \<^verbatim>\<open>data\<close>, the item itself (objects are shared, so a deletion through \<^verbatim>\<open>data\<close>
  shows in \<^verbatim>\<open>item\<close>).
\<close>

record hook_state =
  errors :: "object option"
  data :: jsval

text \<open>\<^verbatim>\<open>errors = errors || {}; errors[key] = val || true\<close> (lines 203 to 206).\<close>

definition error_fn :: "string \<Rightarrow> jsval \<Rightarrow> object option \<Rightarrow> object option" where
  "error_fn key val errs =
     Some (AList.update key (if truthy val then val else JBool True)
             (case errs of None \<Rightarrow> [] | Some e \<Rightarrow> e))"

text \<open>\<^verbatim>\<open>delete data[property]\<close> (lines 216 and 221).\<close>

definition delete_data :: "string \<Rightarrow> hook_state \<Rightarrow> jsval option \<times> hook_state" where
  "delete_data property s =
     (case delete_prop (data s) property of
        Inl e \<Rightarrow> (Some e, s)
      | Inr d \<Rightarrow> (None, s\<lparr>data := d\<rparr>))"

text \<open>
  One call of a function of \<^verbatim>\<open>options.context\<close> (lines 203 to 223). The first
  component of the result is the value thrown, if any.
\<close>

fun context_call :: "session \<Rightarrow> call \<Rightarrow> hook_state \<Rightarrow> jsval option \<times> hook_state" where
  "context_call session (CallError key val) s = (None, s\<lparr>errors := error_fn key val (errors s)\<rparr>)"
| "context_call session (CallCancel msg status) s =
     (if \<not> isRoot session then (Some (new_Error msg status), s) else (None, s))"
| "context_call session (CallHide property) s =
     (if \<not> isRoot session then delete_data property s else (None, s))"
| "context_call session (CallProtect property) s =
     (if \<not> isRoot session then delete_data property s else (None, s))"
| "context_call session (Throw e) s = (Some e, s)"

text \<open>Running steps in order until one throws.\<close>

fun run_until_throw :: "('a \<Rightarrow> 's \<Rightarrow> jsval option \<times> 's) \<Rightarrow> 'a list \<Rightarrow> 's \<Rightarrow> jsval option \<times> 's" where
  "run_until_throw step [] s = (None, s)"
| "run_until_throw step (x # xs) s =
     (case step x s of
        (Some e, s') \<Rightarrow> (Some e, s')
      | (None, s') \<Rightarrow> run_until_throw step xs s')"

text \<open>
  Inside the wrapper built for \<^verbatim>\<open>Get\<close> (lines 229 to 242) the script runs once for
  each element, with \<^verbatim>\<open>this\<close> the element, and \<^verbatim>\<open>hide\<close> is the local function of
  line 233, \<^verbatim>\<open>delete item[property]\<close>, which shadows the one of the context. The
  other names still reach the context, whose \<^verbatim>\<open>data\<close> is the whole array.
\<close>

fun wrapped_call :: "session \<Rightarrow> call \<Rightarrow> hook_state \<times> jsval \<Rightarrow> jsval option \<times> (hook_state \<times> jsval)" where
  "wrapped_call session (CallHide property) (s, item) =
     (case delete_prop item property of
        Inl e \<Rightarrow> (Some e, (s, item))
      | Inr item' \<Rightarrow> (None, (s, item')))"
| "wrapped_call session c (s, item) =
     (case context_call session c s of (thrown, s') \<Rightarrow> (thrown, (s', item)))"

text \<open>
  The element is an object held by slot \<open>i\<close> of the array: what the script deleted
  from it shows in the array, unless the slot itself was deleted meanwhile.
\<close>

definition store_back :: "nat \<Rightarrow> jsval \<Rightarrow> hook_state \<Rightarrow> hook_state" where
  "store_back i item s =
     (case data s of
        JArr slots \<Rightarrow>
          if i < length slots \<and> slots ! i \<noteq> None then s\<lparr>data := JArr (slots[i := Some item])\<rparr>
          else s
      | _ \<Rightarrow> s)"

text \<open>
  One round of \<^verbatim>\<open>this.forEach\<close>, for index \<open>i\<close>: a hole is skipped, as
  \<^verbatim>\<open>forEach\<close> does.
\<close>

definition forEach_step :: "session \<Rightarrow> listener option \<Rightarrow> nat \<Rightarrow> hook_state \<Rightarrow> jsval option \<times> hook_state" where
  "forEach_step session src i s =
     (case data s of
        JArr slots \<Rightarrow>
          if i < length slots then
            (case slots ! i of
               None \<Rightarrow> (None, s)
             | Some item \<Rightarrow>
                 (case run_until_throw (wrapped_call session) (script src item) (s, item) of
                    (thrown, (s', item')) \<Rightarrow> (thrown, store_back i item' s')))
          else (None, s)
      | _ \<Rightarrow> (None, s))"

text \<open>
  \<^verbatim>\<open>execListener(method, session, query, item, fn)\<close>: the result is the pair
  \<^verbatim>\<open>(err, errors || item)\<close> handed to \<^verbatim>\<open>fn\<close> (line 245). For \<^verbatim>\<open>Get\<close> an item
  that is no array has no \<^verbatim>\<open>forEach\<close> to call.
\<close>

definition execListener :: "settings \<Rightarrow> listener_method \<Rightarrow> session \<Rightarrow> jsval \<Rightarrow> jsval \<Rightarrow> jsval \<times> jsval" where
  "execListener stg method session query item =
     (let listener = settings_on stg method;
          s0 = \<lparr>errors = None, data = item\<rparr>;
          (thrown, s) =
             (if method = Get then
                (case item of
                   JArr slots \<Rightarrow> run_until_throw (forEach_step session listener) [0..<length slots] s0
                 | _ \<Rightarrow> (Some TypeError, s0))
              else run_until_throw (context_call session) (script listener item) s0)
      in (case thrown of None \<Rightarrow> JUndefined | Some e \<Rightarrow> e,
          case errors s of Some e \<Rightarrow> JObj e | None \<Rightarrow> data s))"

section \<open>The store and the operations \<^verbatim>\<open>find\<close>, \<^verbatim>\<open>remove\<close> and \<^verbatim>\<open>save\<close>\<close>

text \<open>
  The store is external. Each of its operations takes the state of the database and
  returns the new one together with the arguments \<^verbatim>\<open>(err, result)\<close> it calls its
  callback with (\<open>None\<close> when it never calls back). The calls an operation of the
  collection makes are recorded in the order in which it makes them: those issued to the
  store, and those of \<^verbatim>\<open>execListener\<close>, with the method and the item it is given.
\<close>

type_synonym callback_args = "jsval \<times> jsval"

record 'db store =
  st_find :: "jsval \<Rightarrow> 'db \<Rightarrow> callback_args option \<times> 'db"
  st_insert :: "jsval \<Rightarrow> 'db \<Rightarrow> callback_args option \<times> 'db"
  st_update :: "jsval \<Rightarrow> jsval \<Rightarrow> 'db \<Rightarrow> callback_args option \<times> 'db"
  st_remove :: "jsval \<Rightarrow> 'db \<Rightarrow> callback_args option \<times> 'db"

datatype made_call =
    Find jsval
  | Insert jsval
  | Update jsval jsval
  | Remove jsval
  | ExecListener listener_method jsval

record 'db world =
  db :: 'db
  calls :: "made_call list"

definition issue ::
  "made_call \<Rightarrow> ('db \<Rightarrow> callback_args option \<times> 'db) \<Rightarrow> 'db world \<Rightarrow> callback_args option \<times> 'db world" where
  "issue c operation w =
     (case operation (db w) of (r, db') \<Rightarrow> (r, \<lparr>db = db', calls = calls w @ [c]\<rparr>))"

record 'db collection =
  properties :: "properties option"
  settings :: settings
  store :: "'db store"

text \<open>\<^verbatim>\<open>v._id\<close> for a truthy \<open>v\<close>, and \<^verbatim>\<open>delete v._id\<close>.\<close>

fun prop_id :: "jsval \<Rightarrow> jsval" where
  "prop_id (JObj ps) = get_prop ps ''_id''"
| "prop_id v = JUndefined"

fun delete_id :: "jsval \<Rightarrow> jsval" where
  "delete_id (JObj ps) = JObj (AList.delete ''_id'' ps)"
| "delete_id v = v"

text \<open>
  A call \<^verbatim>\<open>collection.execListener(method, session, query, item, fn)\<close>: it is
  recorded, and gives the arguments of its callback.
\<close>

definition call_execListener ::
  "'db collection \<Rightarrow> listener_method \<Rightarrow> session \<Rightarrow> jsval \<Rightarrow> jsval \<Rightarrow> 'db world
     \<Rightarrow> callback_args \<times> 'db world" where
  "call_execListener c method session query item w =
     (execListener (settings c) method session query item,
      w\<lparr>calls := calls w @ [ExecListener method item]\<rparr>)"

text \<open>\<^verbatim>\<open>Collection.prototype.find\<close> (lines 258 to 266).\<close>

definition find_coll ::
  "'db collection \<Rightarrow> session \<Rightarrow> jsval \<Rightarrow> 'db world \<Rightarrow> callback_args option \<times> 'db world" where
  "find_coll c session query w =
     (case issue (Find query) (st_find (store c) query) w of
        (None, w1) \<Rightarrow> (None, w1)
      | (Some (err, result), w1) \<Rightarrow>
          if truthy err then (Some (err, JUndefined), w1)
          else (case call_execListener c Get session query result w1 of
                  (args, w2) \<Rightarrow> (Some args, w2)))"

text \<open>\<^verbatim>\<open>Collection.prototype.remove\<close> (lines 278 to 290).\<close>

definition remove_coll ::
  "'db collection \<Rightarrow> session \<Rightarrow> jsval \<Rightarrow> 'db world \<Rightarrow> callback_args option \<times> 'db world" where
  "remove_coll c session query w =
     (if \<not> (truthy query \<and> truthy (prop_id query))
      then (Some (JStr ''You must include a query with an _id when deleting an object from a collection.'',
                  JUndefined), w)
      else
        (case issue (Find query) (st_find (store c) query) w of
           (None, w1) \<Rightarrow> (None, w1)
         | (Some (err, result), w1) \<Rightarrow>
             if truthy err then (Some (err, JUndefined), w1)
             else
               (case call_execListener c Delete session query JNull w1 of
                  ((err, result), w2) \<Rightarrow>
                    if truthy err then (Some (err, JUndefined), w2)
                    else issue (Remove query) (st_remove (store c) query) w2)))"

text \<open>
  \<^verbatim>\<open>Collection.prototype.save\<close> (lines 302 to 324). The query argument is an object,
  or \<open>None\<close> when it is missing, \<^verbatim>\<open>null\<close> or the callback itself: lines 307 to 312
  then put \<^verbatim>\<open>{}\<close> in its place. The item and the query are two objects, not one
  object passed twice. Nothing in the body reads \<^verbatim>\<open>this.properties\<close> or
  \<^verbatim>\<open>this.settings\<close>.
\<close>

definition save ::
  "'db collection \<Rightarrow> session \<Rightarrow> jsval \<Rightarrow> object option \<Rightarrow> 'db world \<Rightarrow> callback_args option \<times> 'db world" where
  "save c session item query w =
     (let query = (case query of None \<Rightarrow> [] | Some q \<Rightarrow> q)
      in if \<not> truthy item
           then (Some (JStr ''You must include an object when saving or updating.'', JUndefined), w)
         else
           (let (query, item) =
                  (if truthy (prop_id item)
                   then (AList.update ''_id'' (prop_id item) query, delete_id item)
                   else (query, item))
            in if truthy (get_prop query ''_id'')
                 then issue (Update (JObj query) item) (st_update (store c) (JObj query) item) w
               else issue (Insert item) (st_insert (store c) item) w))"

text \<open>
  A store to run examples against: the database is the list of stored items, every
  operation succeeds.
\<close>

definition list_store :: "jsval list store" where
  "list_store =
     \<lparr>st_find = (\<lambda>query items. (Some (JNull, JArr (map Some items)), items)),
      st_insert = (\<lambda>item items. (Some (JNull, item), items @ [item])),
      st_update = (\<lambda>query item items. (Some (JNull, item), items)),
      st_remove = (\<lambda>query items. (Some (JNull, JUndefined), []))\<rparr>"

definition no_listeners :: settings where
  "no_listeners = \<lparr>onGet = None, onPost = None, onPut = None, onDelete = None\<rparr>"

text \<open>
  Listeners for the examples: \<^verbatim>\<open>hide('secret')\<close>, \<^verbatim>\<open>error('title', 'bad')\<close>,
  \<^verbatim>\<open>cancel('no')\<close>, and \<^verbatim>\<open>if (this.id === '2') error('x', 'bad')\<close> run on records
  whose only field is \<^verbatim>\<open>id\<close>. And a store whose \<^verbatim>\<open>find\<close> fails.
\<close>

definition hide_secret :: listener where
  "hide_secret this = [CallHide ''secret'']"

definition error_title_bad :: listener where
  "error_title_bad this = [CallError ''title'' (JStr ''bad'')]"

definition cancel_no :: listener where
  "cancel_no this = [CallCancel (Some ''no'') JUndefined]"

definition error_on_second :: listener where
  "error_on_second this =
     (if this = JObj [(''id'', JStr ''2'')] then [CallError ''x'' (JStr ''bad'')] else [])"

definition down_store :: "jsval list store" where
  "down_store = list_store\<lparr>st_find := (\<lambda>query items. (Some (JStr ''down'', JUndefined), items))\<rparr>"

section \<open>What a \<^verbatim>\<open>Get\<close> listener that only hides and reports leaves behind\<close>

text \<open>
  For stating the result of \<^verbatim>\<open>execListener\<close> on \<^verbatim>\<open>Get\<close>: the record that a
  sequence of calls leaves when each \<^verbatim>\<open>hide(p)\<close> removes field \<open>p\<close>, and the errors
  it leaves when each \<^verbatim>\<open>error(key, val)\<close> is recorded on top of those so far.
\<close>

fun hide_or_error :: "call \<Rightarrow> bool" where
  "hide_or_error (CallHide property) = True"
| "hide_or_error (CallError key val) = True"
| "hide_or_error c = False"

fun hidden :: "call list \<Rightarrow> object \<Rightarrow> object" where
  "hidden [] r = r"
| "hidden (CallHide property # cs) r = hidden cs (AList.delete property r)"
| "hidden (c # cs) r = hidden cs r"

fun reported :: "call list \<Rightarrow> object option \<Rightarrow> object option" where
  "reported [] errs = errs"
| "reported (CallError key val # cs) errs = reported cs (error_fn key val errs)"
| "reported (c # cs) errs = reported cs errs"

text \<open>The calls whose functions in the context test \<^verbatim>\<open>session.isRoot\<close>.\<close>

fun root_guarded :: "call \<Rightarrow> bool" where
  "root_guarded (CallCancel msg status) = True"
| "root_guarded (CallHide property) = True"
| "root_guarded (CallProtect property) = True"
| "root_guarded c = False"

section \<open>Properties of the schema engine\<close>

text \<open>
  Both loops assign at most one value to the key they visit and leave every other key
  alone; what the finished object holds under a key is then what the visit of that key
  decided.
\<close>

lemma map_of_fold_keyed:
  assumes step: "\<And>key acc. map_of (step key acc) =
      (case d key of None \<Rightarrow> map_of acc | Some v \<Rightarrow> (map_of acc)(key \<mapsto> v))"
  shows "map_of (fold step keys acc) k =
     (if k \<in> set keys then (case d k of None \<Rightarrow> map_of acc k | Some v \<Rightarrow> Some v)
      else map_of acc k)"
proof (induction keys arbitrary: acc)
  case Nil
  show ?case by simp
next
  case (Cons key keys)
  show ?case
    using Cons.IH [of "step key acc"]
    by (simp add: step split: option.split)
qed

lemma sanitize_key_assigns:
  "map_of (sanitize_key pI props body key acc) =
     (case sanitized_value pI props body key of
        None \<Rightarrow> map_of acc
      | Some v \<Rightarrow> (map_of acc)(key \<mapsto> v))"
  by (simp add: sanitize_key_def sanitized_value_def Let_def update_conv' split: option.split)

lemma in_Object_keys: "k \<in> set (Object_keys obj) \<longleftrightarrow> map_of obj k \<noteq> None"
  by (simp add: Object_keys_def map_of_eq_None_iff)

lemma map_of_sanitize: "map_of (sanitize pI props body) k = sanitized_value pI props body k"
proof -
  have "map_of (sanitize pI props body) k =
      (if k \<in> set (Object_keys props)
       then (case sanitized_value pI props body k of None \<Rightarrow> map_of [] k | Some v \<Rightarrow> Some v)
       else map_of [] k)"
    unfolding sanitize_def
    by (rule map_of_fold_keyed) (rule sanitize_key_assigns)
  then show ?thesis
    by (auto simp: in_Object_keys sanitized_value_def split: option.split)
qed

lemma get_prop_sanitize:
  "get_prop (sanitize pI props body) k =
     (case sanitized_value pI props body k of None \<Rightarrow> JUndefined | Some v \<Rightarrow> v)"
  by (simp add: get_prop_def map_of_sanitize)

lemma parseInt_42: "parseInt ''42'' = Finite 42"
  by (simp add: parseInt_def numeral_of_def is_white_space_def digit_of_def to_double_def)








text \<open>
  The second pass of sanitize reads, under each declared key, what the first pass
  stored there, or \<^verbatim>\<open>undefined\<close>. A copied value is copied again, a parsed number
  now has the declared type, and \<^verbatim>\<open>undefined\<close> is stored by no declaration other than
  one of type \<^verbatim>\<open>'undefined'\<close>, which \<^verbatim>\<open>typeof\<close> can return but no schema declares.
\<close>

lemma in_snd: "map_of props k = Some p \<Longrightarrow> p \<in> snd ` set props"
  by (force dest: map_of_SomeD)

lemma sanitize_key_again:
  assumes "\<forall>p \<in> snd ` set props. ptype p \<noteq> Some ''undefined''"
  shows "sanitize_key pI props (sanitize pI props body) key acc = sanitize_key pI props body key acc"
proof (cases "map_of props key")
  case None
  then show ?thesis by (simp add: sanitize_key_def)
next
  case (Some p)
  then have "p \<in> snd ` set props" by (rule in_snd)
  with assms have u: "ptype p \<noteq> Some ''undefined''" by blast
  have v: "sanitized_value pI props body key =
      (if ptype p = Some (typeof (get_prop body key)) then Some (get_prop body key)
       else if ptype p = Some ''number'' \<and> typeof (get_prop body key) = ''string''
         then Some (JNum (pI (chars (get_prop body key))))
       else None)"
    using Some by (simp add: sanitized_value_def)
  have g: "get_prop (sanitize pI props body) key =
      (if ptype p = Some (typeof (get_prop body key)) then get_prop body key
       else if ptype p = Some ''number'' \<and> typeof (get_prop body key) = ''string''
         then JNum (pI (chars (get_prop body key)))
       else JUndefined)"
    by (simp add: get_prop_sanitize v)
  show ?thesis
  proof (cases "ptype p = Some (typeof (get_prop body key))")
    case True
    then show ?thesis using Some g by (simp add: sanitize_key_def Let_def)
  next
    case False
    note nf = False
    show ?thesis
    proof (cases "ptype p = Some ''number'' \<and> typeof (get_prop body key) = ''string''")
      case True
      then show ?thesis using Some g nf by (simp add: sanitize_key_def Let_def)
    next
      case False
      with g nf have "get_prop (sanitize pI props body) key = JUndefined" by auto
      with False nf u Some show ?thesis by (auto simp: sanitize_key_def Let_def)
    qed
  qed
qed

text \<open>
  Why the declared types matter: under a declaration of type \<^verbatim>\<open>'undefined'\<close> a string
  is dropped by the first pass, and the second pass then stores \<^verbatim>\<open>undefined\<close> for the
  key it no longer finds.
\<close>

lemma sanitize_undefined_type:
  "sanitize pI [(''x'', \<lparr>ptype = Some ''undefined'', required = False\<rparr>)] [(''x'', JStr ''a'')] = []
   \<and> sanitize pI [(''x'', \<lparr>ptype = Some ''undefined'', required = False\<rparr>)] [] = [(''x'', JUndefined)]"
  by (simp add: sanitize_def sanitize_key_def Object_keys_def get_prop_def)

text \<open>
  C9. Sanitize is idempotent: sanitizing the output of sanitize against the same schema
  gives that output again, for every record and every schema whose declared types are
  types a schema can declare (none is the string \<^verbatim>\<open>'undefined'\<close>).
\<close>

theorem sanitize_idempotent:
  assumes "\<forall>p \<in> snd ` set props. ptype p \<noteq> Some ''undefined''"
  shows "sanitize pI props (sanitize pI props body) = sanitize pI props body"
proof -
  have "sanitize_key pI props (sanitize pI props body) = sanitize_key pI props body"
    using sanitize_key_again [OF assms] by (intro ext)
  then show ?thesis
    by (simp add: sanitize_def)
qed

theorem sanitize_idempotent_witness:
  "sanitize parseInt
     [(''age'', \<lparr>ptype = Some ''number'', required = False\<rparr>),
      (''name'', \<lparr>ptype = Some ''string'', required = True\<rparr>),
      (''note'', \<lparr>ptype = None, required = False\<rparr>)]
     [(''name'', JStr ''bob''), (''age'', JStr ''42''), (''note'', JStr ''hi''), (''extra'', JBool True)]
     = [(''age'', JNum (Finite 42)), (''name'', JStr ''bob'')]
   \<and> sanitize parseInt
     [(''age'', \<lparr>ptype = Some ''number'', required = False\<rparr>),
      (''name'', \<lparr>ptype = Some ''string'', required = True\<rparr>),
      (''note'', \<lparr>ptype = None, required = False\<rparr>)]
     [(''age'', JNum (Finite 42)), (''name'', JStr ''bob'')]
     = [(''age'', JNum (Finite 42)), (''name'', JStr ''bob'')]"
proof -
  let ?S = "[(''age'', \<lparr>ptype = Some ''number'', required = False\<rparr>),
             (''name'', \<lparr>ptype = Some ''string'', required = True\<rparr>),
             (''note'', \<lparr>ptype = None, required = False\<rparr>)]"
  let ?R = "[(''name'', JStr ''bob''), (''age'', JStr ''42''), (''note'', JStr ''hi''),
             (''extra'', JBool True)]"
  have h: "\<forall>p \<in> snd ` set ?S. ptype p \<noteq> Some ''undefined''"
    by simp
  have first: "sanitize parseInt ?S ?R = [(''age'', JNum (Finite 42)), (''name'', JStr ''bob'')]"
    by (simp add: sanitize_def sanitize_key_def Object_keys_def get_prop_def parseInt_42)
  have "sanitize parseInt ?S (sanitize parseInt ?S ?R) = sanitize parseInt ?S ?R"
    using h by (rule sanitize_idempotent)
  with first show ?thesis by simp
qed

section \<open>Untyped properties\<close>

lemma validate_key_assigns:
  "map_of (validate_key ex isT props body key acc) =
     (case validated_error ex isT props body key of
        None \<Rightarrow> map_of acc
      | Some v \<Rightarrow> (map_of acc)(key \<mapsto> v))"
  by (simp add: validate_key_def validated_error_def Let_def update_conv' split: option.split)

lemma map_of_validate_errors:
  "map_of (fold (validate_key ex isT props body) (Object_keys props) []) k =
     validated_error ex isT props body k"
proof -
  have "map_of (fold (validate_key ex isT props body) (Object_keys props) []) k =
      (if k \<in> set (Object_keys props)
       then (case validated_error ex isT props body k of None \<Rightarrow> map_of [] k | Some v \<Rightarrow> Some v)
       else map_of [] k)"
    by (rule map_of_fold_keyed) (rule validate_key_assigns)
  then show ?thesis
    by (auto simp: in_Object_keys validated_error_def split: option.split)
qed

lemma Object_keys_Nil: "Object_keys obj = [] \<longleftrightarrow> obj = []"
  by (simp add: Object_keys_def)

lemma validate_entry:
  "(case validate ex isT (Some props) body of None \<Rightarrow> None | Some es \<Rightarrow> map_of es k) =
     validated_error ex isT props body k"
proof -
  let ?errors = "fold (validate_key ex isT props body) (Object_keys props) []"
  show ?thesis
  proof (cases "?errors = []")
    case True
    then have "map_of ?errors k = None" by simp
    then have "validated_error ex isT props body k = None"
      by (simp only: map_of_validate_errors)
    with True show ?thesis by (simp add: validate_def Let_def Object_keys_Nil)
  next
    case False
    then show ?thesis by (simp add: validate_def Let_def Object_keys_Nil map_of_validate_errors)
  qed
qed

text \<open>
  C10. For a property declared without a type, validate tests a supplied value against
  the type \<^verbatim>\<open>'string'\<close> (the entry of the errors for that key is the one a declared
  type \<^verbatim>\<open>'string'\<close> gives), while sanitize never stores that key, whatever the value,
  a string included: the two disagree on untyped declared properties.
\<close>

theorem untyped_property:
  assumes "map_of props k = Some p" and "ptype p = None"
  shows "(case validate ex isT (Some props) body of None \<Rightarrow> None | Some es \<Rightarrow> map_of es k) =
           (if ex (get_prop body k)
            then (if isT (get_prop body k) ''string'' then None else Some (JStr ''must be a string''))
            else if required p then Some (JStr ''is required'') else None)
         \<and> map_of (sanitize pI props body) k = None"
  using assms by (simp add: validate_entry validated_error_def map_of_sanitize sanitized_value_def)

theorem untyped_property_witness:
  "map_of [(''title'', \<lparr>ptype = None, required = True\<rparr>)] ''title''
      = Some \<lparr>ptype = None, required = True\<rparr>
   \<and> ptype \<lparr>ptype = None, required = True\<rparr> = None
   \<and> (case validate (\<lambda>v. v \<noteq> JUndefined \<and> v \<noteq> JNull) (\<lambda>v t. typeof v = t)
              (Some [(''title'', \<lparr>ptype = None, required = True\<rparr>)]) [(''title'', JStr ''x'')]
       of None \<Rightarrow> None | Some es \<Rightarrow> map_of es ''title'') = None
   \<and> map_of (sanitize parseInt [(''title'', \<lparr>ptype = None, required = True\<rparr>)]
               [(''title'', JStr ''x'')]) ''title'' = None"
proof -
  let ?S = "[(''title'', \<lparr>ptype = None, required = True\<rparr>)]"
  let ?ex = "\<lambda>v. v \<noteq> JUndefined \<and> v \<noteq> JNull"
  let ?isT = "\<lambda>v t. typeof v = t"
  have a: "map_of ?S ''title'' = Some \<lparr>ptype = None, required = True\<rparr>" by simp
  have b: "ptype \<lparr>ptype = None, required = True\<rparr> = None" by simp
  show ?thesis
    using untyped_property [OF a b, of ?ex ?isT "[(''title'', JStr ''x'')]" parseInt] a b
    by (simp add: get_prop_def)
qed

section \<open>Properties of \<^verbatim>\<open>remove\<close> and \<^verbatim>\<open>save\<close>\<close>



lemma exec_delete_none:
  "execListener no_listeners Delete session query JNull = (JUndefined, JNull)"
  by (simp add: execListener_def no_listeners_def script_def cancel_no_def)

lemma exec_delete_cancel:
  "execListener (no_listeners\<lparr>onDelete := Some cancel_no\<rparr>)
      Delete \<lparr>isRoot = False\<rparr> query JNull
     = (new_Error (Some ''no'') JUndefined, JNull)"
  by (simp add: execListener_def no_listeners_def script_def cancel_no_def)

text \<open>
  C6. A remove whose query has no \<^verbatim>\<open>_id\<close> (reading \<^verbatim>\<open>query._id\<close> gives
  \<^verbatim>\<open>undefined\<close>, as it also does for a missing query) fails at once: the callback gets
  the message of line 282 as its error, and the world is returned as it was, so neither
  \<^verbatim>\<open>find\<close> nor \<^verbatim>\<open>remove\<close> of the store is issued.
\<close>

theorem remove_requires_id:
  assumes "prop_id query = JUndefined"
  shows "remove_coll c session query w =
           (Some (JStr ''You must include a query with an _id when deleting an object from a collection.'',
                  JUndefined), w)"
  using assms by (simp add: remove_coll_def)

theorem remove_requires_id_witness:
  "prop_id (JObj []) = JUndefined
   \<and> remove_coll \<lparr>properties = None, settings = no_listeners, store = list_store\<rparr>
        \<lparr>isRoot = False\<rparr> (JObj []) \<lparr>db = [JObj [(''_id'', JStr ''42'')]], calls = []\<rparr>
      = (Some (JStr ''You must include a query with an _id when deleting an object from a collection.'',
               JUndefined),
         \<lparr>db = [JObj [(''_id'', JStr ''42'')]], calls = []\<rparr>)"
proof -
  have h: "prop_id (JObj []) = JUndefined" by (simp add: get_prop_def)
  show ?thesis
    using remove_requires_id [OF h] h by simp
qed

text \<open>
  C7, as stated, fails on a query whose \<^verbatim>\<open>_id\<close> is there but falsy: line 282 tests the
  truthiness of \<^verbatim>\<open>query._id\<close>, so \<^verbatim>\<open>{_id: 0}\<close> is turned down before any
  \<^verbatim>\<open>find\<close>.
\<close>

theorem remove_falsy_id_counterexample:
  "map_of [(''_id'', JNum (Finite 0))] ''_id'' = Some (JNum (Finite 0))
   \<and> remove_coll \<lparr>properties = None, settings = no_listeners, store = list_store\<rparr>
        \<lparr>isRoot = False\<rparr> (JObj [(''_id'', JNum (Finite 0))])
        \<lparr>db = [JObj [(''_id'', JNum (Finite 0))]], calls = []\<rparr>
      = (Some (JStr ''You must include a query with an _id when deleting an object from a collection.'',
               JUndefined),
         \<lparr>db = [JObj [(''_id'', JNum (Finite 0))]], calls = []\<rparr>)"
  by (simp add: remove_coll_def get_prop_def)

text \<open>
  C7, amended. For a remove whose query has a truthy \<^verbatim>\<open>_id\<close> the stages run in
  sequence: \<^verbatim>\<open>store.find(query)\<close> is issued first; if it never calls back nothing
  follows; if it fails, its error goes to the callback unchanged, the listener is not
  run and nothing else is issued; otherwise the \<^verbatim>\<open>Delete\<close> listener is run with item
  \<^verbatim>\<open>null\<close>; if that fails, its error goes to the callback unchanged and
  \<^verbatim>\<open>store.remove\<close> is not issued; otherwise \<^verbatim>\<open>store.remove(query)\<close> is issued and
  its outcome is the outcome. For a remove whose query has a falsy \<^verbatim>\<open>_id\<close>, or none,
  the callback gets the message of line 282, and neither the store nor the listener is
  called.
\<close>

theorem remove_sequence:
  "(\<not> truthy (prop_id query) \<longrightarrow>
      remove_coll c session query w =
        (Some (JStr ''You must include a query with an _id when deleting an object from a collection.'',
               JUndefined), w))
   \<and> (truthy (prop_id query) \<and> fst (st_find (store c) query (db w)) = None \<longrightarrow>
        remove_coll c session query w =
          (None, \<lparr>db = snd (st_find (store c) query (db w)), calls = calls w @ [Find query]\<rparr>))
   \<and> (\<forall>err result. truthy (prop_id query)
          \<and> fst (st_find (store c) query (db w)) = Some (err, result) \<and> truthy err \<longrightarrow>
        remove_coll c session query w =
          (Some (err, JUndefined),
           \<lparr>db = snd (st_find (store c) query (db w)), calls = calls w @ [Find query]\<rparr>))
   \<and> (\<forall>err result. truthy (prop_id query)
          \<and> fst (st_find (store c) query (db w)) = Some (err, result) \<and> \<not> truthy err
          \<and> truthy (fst (execListener (settings c) Delete session query JNull)) \<longrightarrow>
        remove_coll c session query w =
          (Some (fst (execListener (settings c) Delete session query JNull), JUndefined),
           \<lparr>db = snd (st_find (store c) query (db w)),
            calls = calls w @ [Find query, ExecListener Delete JNull]\<rparr>))
   \<and> (\<forall>err result. truthy (prop_id query)
          \<and> fst (st_find (store c) query (db w)) = Some (err, result) \<and> \<not> truthy err
          \<and> \<not> truthy (fst (execListener (settings c) Delete session query JNull)) \<longrightarrow>
        remove_coll c session query w =
          (fst (st_remove (store c) query (snd (st_find (store c) query (db w)))),
           \<lparr>db = snd (st_remove (store c) query (snd (st_find (store c) query (db w)))),
            calls = calls w @ [Find query, ExecListener Delete JNull, Remove query]\<rparr>))"
proof (cases "truthy (prop_id query)")
  case False
  then show ?thesis by (simp add: remove_coll_def)
next
  case True
  then have q: "truthy query" by (cases query) simp_all
  obtain r d where f: "st_find (store c) query (db w) = (r, d)" by (cases "st_find (store c) query (db w)")
  obtain e x where h: "execListener (settings c) Delete session query JNull = (e, x)"
    by (cases "execListener (settings c) Delete session query JNull")
  obtain r2 d2 where g: "st_remove (store c) query d = (r2, d2)" by (cases "st_remove (store c) query d")
  show ?thesis
    using True q by (simp add: remove_coll_def issue_def call_execListener_def f h g)
qed

theorem remove_sequence_witness:
  "remove_coll \<lparr>properties = None, settings = no_listeners, store = list_store\<rparr>
        \<lparr>isRoot = False\<rparr> (JObj [(''_id'', JStr [])])
        \<lparr>db = [JObj [(''_id'', JStr ''42'')]], calls = []\<rparr>
      = (Some (JStr ''You must include a query with an _id when deleting an object from a collection.'',
               JUndefined),
         \<lparr>db = [JObj [(''_id'', JStr ''42'')]], calls = []\<rparr>)
   \<and> remove_coll \<lparr>properties = None, settings = no_listeners, store = down_store\<rparr>
        \<lparr>isRoot = False\<rparr> (JObj [(''_id'', JStr ''42'')])
        \<lparr>db = [JObj [(''_id'', JStr ''42'')]], calls = []\<rparr>
      = (Some (JStr ''down'', JUndefined),
         \<lparr>db = [JObj [(''_id'', JStr ''42'')]], calls = [Find (JObj [(''_id'', JStr ''42'')])]\<rparr>)
   \<and> remove_coll
        \<lparr>properties = None, settings = no_listeners\<lparr>onDelete := Some cancel_no\<rparr>, store = list_store\<rparr>
        \<lparr>isRoot = False\<rparr> (JObj [(''_id'', JStr ''42'')])
        \<lparr>db = [JObj [(''_id'', JStr ''42'')]], calls = []\<rparr>
      = (Some (new_Error (Some ''no'') JUndefined, JUndefined),
         \<lparr>db = [JObj [(''_id'', JStr ''42'')]],
          calls = [Find (JObj [(''_id'', JStr ''42'')]), ExecListener Delete JNull]\<rparr>)
   \<and> remove_coll \<lparr>properties = None, settings = no_listeners, store = list_store\<rparr>
        \<lparr>isRoot = False\<rparr> (JObj [(''_id'', JStr ''42'')])
        \<lparr>db = [JObj [(''_id'', JStr ''42'')]], calls = []\<rparr>
      = (Some (JNull, JUndefined),
         \<lparr>db = [],
          calls = [Find (JObj [(''_id'', JStr ''42'')]), ExecListener Delete JNull,
                   Remove (JObj [(''_id'', JStr ''42'')])]\<rparr>)"
proof -
  let ?q = "JObj [(''_id'', JStr ''42'')]"
  let ?w = "\<lparr>db = [JObj [(''_id'', JStr ''42'')]], calls = []\<rparr>"
  let ?s = "\<lparr>isRoot = False\<rparr>"
  have h: "truthy (prop_id ?q)" by (simp add: get_prop_def)
  have 0: "remove_coll \<lparr>properties = None, settings = no_listeners, store = list_store\<rparr>
        ?s (JObj [(''_id'', JStr [])]) ?w
      = (Some (JStr ''You must include a query with an _id when deleting an object from a collection.'',
               JUndefined), ?w)"
    using remove_sequence [of "JObj [(''_id'', JStr [])]"
        "\<lparr>properties = None, settings = no_listeners, store = list_store\<rparr>" ?s ?w]
    by (simp add: get_prop_def)
  have 1: "remove_coll \<lparr>properties = None, settings = no_listeners, store = down_store\<rparr> ?s ?q ?w
      = (Some (JStr ''down'', JUndefined), \<lparr>db = [JObj [(''_id'', JStr ''42'')]], calls = [Find ?q]\<rparr>)"
    using remove_sequence [of ?q "\<lparr>properties = None, settings = no_listeners, store = down_store\<rparr>" ?s ?w] h
    by (simp add: list_store_def down_store_def)
  have 2: "remove_coll
        \<lparr>properties = None, settings = no_listeners\<lparr>onDelete := Some cancel_no\<rparr>, store = list_store\<rparr>
        ?s ?q ?w
      = (Some (new_Error (Some ''no'') JUndefined, JUndefined),
         \<lparr>db = [JObj [(''_id'', JStr ''42'')]], calls = [Find ?q, ExecListener Delete JNull]\<rparr>)"
    using remove_sequence [of ?q "\<lparr>properties = None,
         settings = no_listeners\<lparr>onDelete := Some cancel_no\<rparr>, store = list_store\<rparr>" ?s ?w] h
    by (simp add: list_store_def exec_delete_cancel new_Error_def)
  have 3: "remove_coll \<lparr>properties = None, settings = no_listeners, store = list_store\<rparr> ?s ?q ?w
      = (Some (JNull, JUndefined), \<lparr>db = [], calls = [Find ?q, ExecListener Delete JNull, Remove ?q]\<rparr>)"
    using remove_sequence [of ?q "\<lparr>properties = None, settings = no_listeners, store = list_store\<rparr>" ?s ?w] h
    by (simp add: list_store_def exec_delete_none)
  from 0 1 2 3 show ?thesis by blast
qed




text \<open>
  \<^verbatim>\<open>save\<close> reads neither \<^verbatim>\<open>this.properties\<close> nor \<^verbatim>\<open>this.settings\<close>: it calls
  none of \<^verbatim>\<open>sanitize\<close>, \<^verbatim>\<open>validate\<close> and \<^verbatim>\<open>execListener\<close>.
\<close>

lemma save_ignores_configuration:
  "save (c\<lparr>properties := ps, settings := stg\<rparr>) session item query w = save c session item query w"
  by (simp add: save_def Let_def)

text \<open>
  C1 at a concrete input. The collection declares \<^verbatim>\<open>title\<close> and has an \<^verbatim>\<open>onPost\<close>
  listener \<^verbatim>\<open>error('title', 'bad')\<close>. Run on the item, the listener gives the errors
  \<^verbatim>\<open>{title: 'bad'}\<close>, and sanitize would drop \<^verbatim>\<open>junk\<close>; yet save inserts the item
  as it came and answers with the store's result.
\<close>

theorem save_skips_post_errors:
  "execListener (no_listeners\<lparr>onPost := Some error_title_bad\<rparr>)
       Post \<lparr>isRoot = False\<rparr> (JObj []) (JObj [(''title'', JStr ''x''), (''junk'', JBool True)])
     = (JUndefined, JObj [(''title'', JStr ''bad'')])
   \<and> sanitize parseInt [(''title'', \<lparr>ptype = Some ''string'', required = True\<rparr>)]
        [(''title'', JStr ''x''), (''junk'', JBool True)] = [(''title'', JStr ''x'')]
   \<and> save \<lparr>properties = Some [(''title'', \<lparr>ptype = Some ''string'', required = True\<rparr>)],
            settings = no_listeners\<lparr>onPost := Some error_title_bad\<rparr>,
            store = list_store\<rparr>
        \<lparr>isRoot = False\<rparr> (JObj [(''title'', JStr ''x''), (''junk'', JBool True)]) (Some [])
        \<lparr>db = [], calls = []\<rparr>
      = (Some (JNull, JObj [(''title'', JStr ''x''), (''junk'', JBool True)]),
         \<lparr>db = [JObj [(''title'', JStr ''x''), (''junk'', JBool True)]],
          calls = [Insert (JObj [(''title'', JStr ''x''), (''junk'', JBool True)])]\<rparr>)"
  by (simp add: save_def issue_def list_store_def get_prop_def execListener_def no_listeners_def
      script_def error_fn_def sanitize_def sanitize_key_def Object_keys_def error_title_bad_def)

text \<open>
  C2 at a concrete input. For a session that is not root, the \<^verbatim>\<open>onPost\<close> listener
  \<^verbatim>\<open>cancel('no')\<close> throws when run; yet save inserts the item and answers with the
  store's success.
\<close>

theorem save_skips_post_cancel:
  "execListener (no_listeners\<lparr>onPost := Some cancel_no\<rparr>)
       Post \<lparr>isRoot = False\<rparr> (JObj []) (JObj [(''title'', JStr ''x'')])
     = (new_Error (Some ''no'') JUndefined, JObj [(''title'', JStr ''x'')])
   \<and> save \<lparr>properties = None,
            settings = no_listeners\<lparr>onPost := Some cancel_no\<rparr>,
            store = list_store\<rparr>
        \<lparr>isRoot = False\<rparr> (JObj [(''title'', JStr ''x'')]) (Some [])
        \<lparr>db = [], calls = []\<rparr>
      = (Some (JNull, JObj [(''title'', JStr ''x'')]),
         \<lparr>db = [JObj [(''title'', JStr ''x'')]], calls = [Insert (JObj [(''title'', JStr ''x'')])]\<rparr>)"
  by (simp add: save_def issue_def list_store_def get_prop_def execListener_def no_listeners_def
      script_def cancel_no_def)

section \<open>Properties of \<^verbatim>\<open>execListener\<close>\<close>

text \<open>
  Outside \<^verbatim>\<open>Get\<close>, for a root session, \<^verbatim>\<open>cancel\<close>, \<^verbatim>\<open>hide\<close> and \<^verbatim>\<open>protect\<close>
  do nothing: a listener made of such calls returns the item as it was, with no error.
\<close>

lemma root_context_calls:
  assumes "isRoot session" and "list_all root_guarded cs"
  shows "run_until_throw (context_call session) cs s = (None, s)"
  using assms
proof (induction cs)
  case Nil
  show ?case by simp
next
  case (Cons c cs)
  then show ?case by (cases c) simp_all
qed

lemma root_outside_get:
  assumes "isRoot session" and "method \<noteq> Get"
    and "list_all root_guarded (script (settings_on stg method) item)"
  shows "execListener stg method session query item = (JUndefined, item)"
  using assms by (simp add: execListener_def root_context_calls)

text \<open>
  Inside the \<^verbatim>\<open>Get\<close> wrapper \<^verbatim>\<open>cancel\<close> and \<^verbatim>\<open>protect\<close> are still those of the
  context, and do nothing for a root session.
\<close>

lemma root_wrapped_calls:
  assumes "isRoot session"
  shows "wrapped_call session (CallCancel msg status) (s, item) = (None, (s, item))"
    and "wrapped_call session (CallProtect property) (s, item) = (None, (s, item))"
  using assms by simp_all

text \<open>
  C3 at a concrete input. For a root session the \<^verbatim>\<open>Get\<close> listener \<^verbatim>\<open>hide('secret')\<close>
  still removes \<^verbatim>\<open>secret\<close> from the record: inside the wrapper \<^verbatim>\<open>hide\<close> is the local
  function of line 233, which does not test \<^verbatim>\<open>session.isRoot\<close>. The same listener on
  \<^verbatim>\<open>Put\<close> reaches the function of the context (line 214) and leaves the record alone.
\<close>

theorem get_hide_ignores_root:
  "execListener (no_listeners\<lparr>onGet := Some hide_secret\<rparr>) Get \<lparr>isRoot = True\<rparr>
      (JObj []) (JArr [Some (JObj [(''secret'', JStr ''s''), (''title'', JStr ''a'')])])
     = (JUndefined, JArr [Some (JObj [(''title'', JStr ''a'')])])
   \<and> execListener (no_listeners\<lparr>onPut := Some hide_secret\<rparr>) Put \<lparr>isRoot = True\<rparr>
      (JObj []) (JObj [(''secret'', JStr ''s''), (''title'', JStr ''a'')])
     = (JUndefined, JObj [(''secret'', JStr ''s''), (''title'', JStr ''a'')])"
  by (simp add: execListener_def no_listeners_def script_def forEach_step_def store_back_def
      hide_secret_def)

text \<open>
  C4, as stated, fails on the error call: \<^verbatim>\<open>errors\<close> is one variable for the whole
  invocation and the result is \<^verbatim>\<open>errors || item\<close>, so an \<^verbatim>\<open>error('x', 'bad')\<close> made
  for the second of three records replaces the whole list by \<^verbatim>\<open>{x: 'bad'}\<close>.
\<close>

theorem get_error_replaces_list:
  "execListener
      (no_listeners\<lparr>onGet := Some error_on_second\<rparr>)
      Get \<lparr>isRoot = False\<rparr> (JObj [])
      (JArr [Some (JObj [(''id'', JStr ''1'')]), Some (JObj [(''id'', JStr ''2'')]),
             Some (JObj [(''id'', JStr ''3'')])])
     = (JUndefined, JObj [(''x'', JStr ''bad'')])"
  by (simp add: execListener_def no_listeners_def script_def forEach_step_def store_back_def
      error_fn_def upt_rec error_on_second_def)

lemma run_hide_or_error:
  "list_all hide_or_error cs \<Longrightarrow>
   run_until_throw (wrapped_call session) cs (s, JObj r) =
     (None, (s\<lparr>errors := reported cs (errors s)\<rparr>, JObj (hidden cs r)))"
proof (induction cs arbitrary: s r)
  case Nil
  show ?case by simp
next
  case (Cons c cs)
  then have rest: "list_all hide_or_error cs" and c: "hide_or_error c" by simp_all
  from c show ?case
  proof (cases c)
    case (CallHide p)
    then show ?thesis using Cons.IH [OF rest, of s "AList.delete p r"] by simp
  next
    case (CallError k v)
    then show ?thesis
      using Cons.IH [OF rest, of "s\<lparr>errors := error_fn k v (errors s)\<rparr>" r] by simp
  qed simp_all
qed

lemma forEach_step_hide_or_error:
  assumes "data s = JArr slots" and "i < length slots" and "slots ! i = Some (JObj r)"
    and "list_all hide_or_error (script src (JObj r))"
  shows "forEach_step session src i s =
     (None, s\<lparr>errors := reported (script src (JObj r)) (errors s),
               data := JArr (slots[i := Some (JObj (hidden (script src (JObj r)) r))])\<rparr>)"
  using assms
  by (simp add: forEach_step_def run_hide_or_error store_back_def)

lemma run_until_throw_Cons:
  "step x s = (None, s') \<Longrightarrow> run_until_throw step (x # xs) s = run_until_throw step xs s'"
  by simp

lemma forEach_hide_or_error:
  assumes "\<forall>r \<in> set rs. list_all hide_or_error (script src (JObj r))"
  shows "run_until_throw (forEach_step session src) [length pre..<length pre + length rs]
       \<lparr>errors = e, data = JArr (pre @ map (\<lambda>r. Some (JObj r)) rs)\<rparr> =
     (None, \<lparr>errors = fold (\<lambda>r. reported (script src (JObj r))) rs e,
             data = JArr (pre @ map (\<lambda>r. Some (JObj (hidden (script src (JObj r)) r))) rs)\<rparr>)"
  using assms
proof (induction rs arbitrary: pre e)
  case Nil
  show ?case by simp
next
  case (Cons r rs)
  let ?s = "\<lparr>errors = e, data = JArr (pre @ map (\<lambda>r. Some (JObj r)) (r # rs))\<rparr>"
  let ?r' = "Some (JObj (hidden (script src (JObj r)) r))"
  have step: "forEach_step session src (length pre) ?s =
      (None, \<lparr>errors = reported (script src (JObj r)) e,
              data = JArr ((pre @ [?r']) @ map (\<lambda>r. Some (JObj r)) rs)\<rparr>)"
    using Cons.prems
    by (subst forEach_step_hide_or_error [where slots = "pre @ map (\<lambda>r. Some (JObj r)) (r # rs)" and r = r])
       simp_all
  have upt: "[length pre..<length pre + length (r # rs)] =
      length pre # [length (pre @ [?r'])..<length (pre @ [?r']) + length rs]"
    using upt_conv_Cons [of "length pre" "length pre + Suc (length rs)"] by simp
  have rest: "\<forall>r \<in> set rs. list_all hide_or_error (script src (JObj r))"
    using Cons.prems by simp
  have "run_until_throw (forEach_step session src) [length pre..<length pre + length (r # rs)] ?s =
      run_until_throw (forEach_step session src)
        [length (pre @ [?r'])..<length (pre @ [?r']) + length rs]
        \<lparr>errors = reported (script src (JObj r)) e,
         data = JArr ((pre @ [?r']) @ map (\<lambda>r. Some (JObj r)) rs)\<rparr>"
    unfolding upt
    by (rule run_until_throw_Cons [where step = "forEach_step session src" and x = "length pre", OF step])
  also have "\<dots> =
      (None, \<lparr>errors = fold (\<lambda>r. reported (script src (JObj r))) rs (reported (script src (JObj r)) e),
               data = JArr ((pre @ [?r']) @ map (\<lambda>r. Some (JObj (hidden (script src (JObj r)) r))) rs)\<rparr>)"
    by (rule Cons.IH [OF rest])
  also have "\<dots> =
      (None, \<lparr>errors = fold (\<lambda>r. reported (script src (JObj r))) (r # rs) e,
               data = JArr (pre @ map (\<lambda>r. Some (JObj (hidden (script src (JObj r)) r))) (r # rs))\<rparr>)"
    by simp
  finally show ?case .
qed

lemma map_of_hidden:
  "map_of (hidden cs r) k = (if CallHide k \<in> set cs then None else map_of r k)"
proof (induction cs arbitrary: r)
  case Nil
  show ?case by simp
next
  case (Cons c cs)
  show ?case
    by (cases c) (auto simp: Cons.IH delete_conv')
qed

lemma reported_no_error:
  "\<forall>key val. CallError key val \<notin> set cs \<Longrightarrow> reported cs errs = errs"
proof (induction cs)
  case Nil
  show ?case by simp
next
  case (Cons c cs)
  then show ?case by (cases c) auto
qed

lemma reported_Some: "\<exists>e. reported cs (Some e0) = Some e"
proof (induction cs arbitrary: e0)
  case Nil
  show ?case by simp
next
  case (Cons c cs)
  show ?case by (cases c) (simp_all add: Cons.IH error_fn_def)
qed

lemma reported_error:
  "CallError key val \<in> set cs \<Longrightarrow> \<exists>e. reported cs errs = Some e"
proof (induction cs arbitrary: errs)
  case Nil
  then show ?case by simp
next
  case (Cons c cs)
  show ?case
  proof (cases c)
    case (CallError k v)
    then show ?thesis using reported_Some by (simp add: error_fn_def)
  qed (use Cons in auto)
qed

lemma fold_reported_Some:
  "\<exists>e. fold (\<lambda>r. reported (f r)) rs (Some e0) = Some e"
proof (induction rs arbitrary: e0)
  case Nil
  show ?case by simp
next
  case (Cons r rs)
  obtain e1 where "reported (f r) (Some e0) = Some e1" using reported_Some by blast
  then show ?case using Cons.IH [of e1] by simp
qed

lemma fold_reported_error:
  "\<exists>r \<in> set rs. \<exists>key val. CallError key val \<in> set (f r) \<Longrightarrow>
   \<exists>e. fold (\<lambda>r. reported (f r)) rs errs = Some e"
proof (induction rs arbitrary: errs)
  case Nil
  then show ?case by simp
next
  case (Cons r rs)
  show ?case
  proof (cases "\<exists>key val. CallError key val \<in> set (f r)")
    case True
    then obtain e1 where "reported (f r) errs = Some e1" using reported_error by blast
    then show ?thesis using fold_reported_Some [of f rs e1] by simp
  next
    case False
    with Cons.prems have "\<exists>r \<in> set rs. \<exists>key val. CallError key val \<in> set (f r)" by simp
    then show ?thesis using Cons.IH by simp
  qed
qed

lemma fold_reported_no_error:
  "\<forall>r \<in> set rs. \<forall>key val. CallError key val \<notin> set (f r) \<Longrightarrow>
   fold (\<lambda>r. reported (f r)) rs errs = errs"
  by (induction rs) (simp_all add: reported_no_error)

text \<open>
  C4, amended. For the \<^verbatim>\<open>Get\<close> event, a session that is not root, a result list of
  records, and a listener whose applications make only \<^verbatim>\<open>hide\<close> and \<^verbatim>\<open>error\<close>
  calls: the listener is applied once to each record of the list, in order; the
  \<^verbatim>\<open>hide(field)\<close> calls of an application remove exactly those fields from the record
  it runs against, independently for each record; when no application calls
  \<^verbatim>\<open>error\<close>, the result is the redacted list in the original order; when some
  application does, the result is, in place of the list, the one ErrorMap accumulated
  over all the records.
\<close>

theorem get_per_record:
  assumes "\<not> isRoot session"
    and "\<forall>r \<in> set rs. list_all hide_or_error (script (onGet stg) (JObj r))"
  shows "execListener stg Get session query (JArr (map (\<lambda>r. Some (JObj r)) rs)) =
       (JUndefined,
        case fold (\<lambda>r. reported (script (onGet stg) (JObj r))) rs None of
          None \<Rightarrow> JArr (map (\<lambda>r. Some (JObj (hidden (script (onGet stg) (JObj r)) r))) rs)
        | Some e \<Rightarrow> JObj e)
     \<and> ((\<forall>r \<in> set rs. \<forall>key val. CallError key val \<notin> set (script (onGet stg) (JObj r))) \<longrightarrow>
          execListener stg Get session query (JArr (map (\<lambda>r. Some (JObj r)) rs)) =
            (JUndefined, JArr (map (\<lambda>r. Some (JObj (hidden (script (onGet stg) (JObj r)) r))) rs)))
     \<and> ((\<exists>r \<in> set rs. \<exists>key val. CallError key val \<in> set (script (onGet stg) (JObj r))) \<longrightarrow>
          (\<exists>e. fold (\<lambda>r. reported (script (onGet stg) (JObj r))) rs None = Some e
             \<and> execListener stg Get session query (JArr (map (\<lambda>r. Some (JObj r)) rs)) =
                 (JUndefined, JObj e)))
     \<and> (\<forall>r k. map_of (hidden (script (onGet stg) (JObj r)) r) k =
            (if CallHide k \<in> set (script (onGet stg) (JObj r)) then None else map_of r k))"
proof -
  have run: "run_until_throw (forEach_step session (onGet stg)) [0..<length rs]
       \<lparr>errors = None, data = JArr (map (\<lambda>r. Some (JObj r)) rs)\<rparr> =
     (None, \<lparr>errors = fold (\<lambda>r. reported (script (onGet stg) (JObj r))) rs None,
             data = JArr (map (\<lambda>r. Some (JObj (hidden (script (onGet stg) (JObj r)) r))) rs)\<rparr>)"
    using forEach_hide_or_error [OF assms(2), of session "[]" None] by simp
  have main: "execListener stg Get session query (JArr (map (\<lambda>r. Some (JObj r)) rs)) =
       (JUndefined,
        case fold (\<lambda>r. reported (script (onGet stg) (JObj r))) rs None of
          None \<Rightarrow> JArr (map (\<lambda>r. Some (JObj (hidden (script (onGet stg) (JObj r)) r))) rs)
        | Some e \<Rightarrow> JObj e)"
    by (simp add: execListener_def run split: option.split)
  have some: "\<exists>e. fold (\<lambda>r. reported (script (onGet stg) (JObj r))) rs None = Some e"
    if "\<exists>r \<in> set rs. \<exists>key val. CallError key val \<in> set (script (onGet stg) (JObj r))"
    using that fold_reported_error [of rs "\<lambda>r. script (onGet stg) (JObj r)" None] by simp
  show ?thesis
  proof (intro conjI impI)
    show "execListener stg Get session query (JArr (map (\<lambda>r. Some (JObj r)) rs)) =
       (JUndefined,
        case fold (\<lambda>r. reported (script (onGet stg) (JObj r))) rs None of
          None \<Rightarrow> JArr (map (\<lambda>r. Some (JObj (hidden (script (onGet stg) (JObj r)) r))) rs)
        | Some e \<Rightarrow> JObj e)"
      by (rule main)
  next
    assume "\<forall>r \<in> set rs. \<forall>key val. CallError key val \<notin> set (script (onGet stg) (JObj r))"
    then show "execListener stg Get session query (JArr (map (\<lambda>r. Some (JObj r)) rs)) =
            (JUndefined, JArr (map (\<lambda>r. Some (JObj (hidden (script (onGet stg) (JObj r)) r))) rs))"
      by (simp add: main fold_reported_no_error)
  next
    assume "\<exists>r \<in> set rs. \<exists>key val. CallError key val \<in> set (script (onGet stg) (JObj r))"
    then obtain e where e: "fold (\<lambda>r. reported (script (onGet stg) (JObj r))) rs None = Some e"
      using some by blast
    then show "\<exists>e. fold (\<lambda>r. reported (script (onGet stg) (JObj r))) rs None = Some e
             \<and> execListener stg Get session query (JArr (map (\<lambda>r. Some (JObj r)) rs)) =
                 (JUndefined, JObj e)"
      by (simp add: main)
  next
    show "\<forall>r k. map_of (hidden (script (onGet stg) (JObj r)) r) k =
            (if CallHide k \<in> set (script (onGet stg) (JObj r)) then None else map_of r k)"
      by (simp add: map_of_hidden)
  qed
qed

theorem get_per_record_witness:
  "execListener (no_listeners\<lparr>onGet := Some hide_secret\<rparr>) Get
        \<lparr>isRoot = False\<rparr> (JObj [])
        (JArr [Some (JObj [(''secret'', JStr ''a''), (''n'', JStr ''1'')]),
               Some (JObj [(''secret'', JStr ''b'')]),
               Some (JObj [(''n'', JStr ''3'')])])
      = (JUndefined, JArr [Some (JObj [(''n'', JStr ''1'')]), Some (JObj []), Some (JObj [(''n'', JStr ''3'')])])
   \<and> execListener (no_listeners\<lparr>onGet := Some error_title_bad\<rparr>) Get
        \<lparr>isRoot = False\<rparr> (JObj [])
        (JArr [Some (JObj [(''n'', JStr ''1'')]), Some (JObj [(''n'', JStr ''2'')])])
      = (JUndefined, JObj [(''title'', JStr ''bad'')])"
proof -
  let ?stg = "no_listeners\<lparr>onGet := Some hide_secret\<rparr>"
  let ?rs = "[[(''secret'', JStr ''a''), (''n'', JStr ''1'')], [(''secret'', JStr ''b'')], [(''n'', JStr ''3'')]]"
  let ?stg2 = "no_listeners\<lparr>onGet := Some error_title_bad\<rparr>"
  let ?rs2 = "[[(''n'', JStr ''1'')], [(''n'', JStr ''2'')]]"
  have nr: "\<not> isRoot \<lparr>isRoot = False\<rparr>" by simp
  have h: "\<forall>r \<in> set ?rs. list_all hide_or_error (script (onGet ?stg) (JObj r))"
    by (simp add: script_def hide_secret_def)
  have h2: "\<forall>r \<in> set ?rs2. list_all hide_or_error (script (onGet ?stg2) (JObj r))"
    by (simp add: script_def error_title_bad_def)
  have 1: "execListener ?stg Get \<lparr>isRoot = False\<rparr> (JObj []) (JArr (map (\<lambda>r. Some (JObj r)) ?rs))
      = (JUndefined, JArr [Some (JObj [(''n'', JStr ''1'')]), Some (JObj []), Some (JObj [(''n'', JStr ''3'')])])"
    using get_per_record [OF nr h, of "JObj []", THEN conjunct1]
    by (simp add: script_def hide_secret_def)
  have 2: "execListener ?stg2 Get \<lparr>isRoot = False\<rparr> (JObj []) (JArr (map (\<lambda>r. Some (JObj r)) ?rs2))
      = (JUndefined, JObj [(''title'', JStr ''bad'')])"
    using get_per_record [OF nr h2, of "JObj []", THEN conjunct1]
    by (simp add: script_def error_title_bad_def error_fn_def)
  from 1 2 show ?thesis by simp
qed

end
